theory Spec2Isabelle
  imports Complex_Main "HOL-Library.Word" "HOL-Library.Sublist"
begin

section \<open>Floating-point values of numpy and pandas\<close>

text \<open>
  A float is modelled as an exact real number or one of the three special values that
  numpy and pandas produce instead of raising: the two infinities and NaN. Rounding and
  the sign of zero are not modelled. The operations follow IEEE 754 on the special
  values; in particular a division by zero does not raise but yields an infinity, or
  NaN when the numerator is zero too.
\<close>

datatype npfloat = Fin real | PInf | NInf | NaN

fun np_neg :: "npfloat \<Rightarrow> npfloat" where
  "np_neg (Fin a) = Fin (- a)"
| "np_neg PInf = NInf"
| "np_neg NInf = PInf"
| "np_neg NaN = NaN"

fun np_add :: "npfloat \<Rightarrow> npfloat \<Rightarrow> npfloat" where
  "np_add (Fin a) (Fin b) = Fin (a + b)"
| "np_add NaN _ = NaN"
| "np_add _ NaN = NaN"
| "np_add PInf NInf = NaN"
| "np_add NInf PInf = NaN"
| "np_add PInf _ = PInf"
| "np_add _ PInf = PInf"
| "np_add NInf _ = NInf"
| "np_add _ NInf = NInf"

definition np_sub :: "npfloat \<Rightarrow> npfloat \<Rightarrow> npfloat" where
  "np_sub a b = np_add a (np_neg b)"

fun np_mul :: "npfloat \<Rightarrow> npfloat \<Rightarrow> npfloat" where
  "np_mul (Fin a) (Fin b) = Fin (a * b)"
| "np_mul NaN _ = NaN"
| "np_mul _ NaN = NaN"
| "np_mul PInf (Fin b) = (if b = 0 then NaN else if 0 < b then PInf else NInf)"
| "np_mul NInf (Fin b) = (if b = 0 then NaN else if 0 < b then NInf else PInf)"
| "np_mul (Fin a) PInf = (if a = 0 then NaN else if 0 < a then PInf else NInf)"
| "np_mul (Fin a) NInf = (if a = 0 then NaN else if 0 < a then NInf else PInf)"
| "np_mul PInf PInf = PInf"
| "np_mul PInf NInf = NInf"
| "np_mul NInf PInf = NInf"
| "np_mul NInf NInf = PInf"

fun np_div :: "npfloat \<Rightarrow> npfloat \<Rightarrow> npfloat" where
  "np_div (Fin a) (Fin b) =
     (if b \<noteq> 0 then Fin (a / b)
      else if a = 0 then NaN else if 0 < a then PInf else NInf)"
| "np_div NaN _ = NaN"
| "np_div _ NaN = NaN"
| "np_div (Fin a) PInf = Fin 0"
| "np_div (Fin a) NInf = Fin 0"
| "np_div PInf (Fin b) = (if 0 \<le> b then PInf else NInf)"
| "np_div NInf (Fin b) = (if 0 \<le> b then NInf else PInf)"
| "np_div PInf PInf = NaN"
| "np_div PInf NInf = NaN"
| "np_div NInf PInf = NaN"
| "np_div NInf NInf = NaN"

fun np_sqrt :: "npfloat \<Rightarrow> npfloat" where
  "np_sqrt (Fin a) = (if 0 \<le> a then Fin (sqrt a) else NaN)"
| "np_sqrt PInf = PInf"
| "np_sqrt NInf = NaN"
| "np_sqrt NaN = NaN"

definition np_sum :: "npfloat list \<Rightarrow> npfloat" where
  "np_sum xs = foldl np_add (Fin 0) xs"

text \<open>\<open>np.mean\<close> of a one-dimensional array: the sum over the number of entries.\<close>

definition np_mean :: "npfloat list \<Rightarrow> npfloat" where
  "np_mean xs = np_div (np_sum xs) (Fin (real (length xs)))"

text \<open>\<open>np.log10\<close> of a finite number and \<open>10 ** y\<close>.\<close>

definition np_log10 :: "real \<Rightarrow> npfloat" where
  "np_log10 x = (if 0 < x then Fin (log 10 x) else if x = 0 then NInf else NaN)"


section \<open>Fully connected architectures of the Keras exercise\<close>

text \<open>
  A \<open>Sequential\<close> model of \<open>Dense\<close> layers is given by the width of its input and the
  list of the layers' unit counts. A dense layer owns a kernel of \<open>inputs \<times> units\<close>
  weights and one bias per unit; \<open>count_params\<close> adds the layers up, each layer's input
  being the output of the one before.
\<close>

definition dense_params :: "nat \<Rightarrow> nat \<Rightarrow> nat" where
  "dense_params n_in units = n_in * units + units"

fun count_params :: "nat \<Rightarrow> nat list \<Rightarrow> nat" where
  "count_params n_in [] = 0"
| "count_params n_in (u # us) = dense_params n_in u + count_params u us"

text \<open>
  The tutorial's first model: \<open>Dense(64, relu)\<close>, \<open>Dense(64, relu)\<close>, \<open>Dense(1, linear)\<close>.
\<close>

definition tutorial_model :: "nat list" where
  "tutorial_model = [64, 64, 1]"

text \<open>
  The answer cell of Part 1: three hidden layers of 128 units and one output unit.
\<close>

definition overfit_model :: "nat list" where
  "overfit_model = [128, 128, 128, 1]"

text \<open>
  \<open>build_model(n_layers=3, hidden_size=128)\<close>: one hidden layer, then
  \<open>range(n_layers - 1)\<close> further hidden layers (none when \<open>n_layers \<le> 1\<close>), then the
  output layer of one unit.
\<close>

definition build_model :: "int \<Rightarrow> nat \<Rightarrow> nat list" where
  "build_model n_layers hidden_size =
     [hidden_size] @ replicate (nat (n_layers - 1)) hidden_size @ [1]"

section \<open>The battery data loader \<open>get_data\<close>\<close>

text \<open>
  \<open>get_data\<close> walks over the groups of the HDF5 file in key order. Of each cell the
  model keeps the group name and the failure cycle; the feature arrays \<open>Xin\<close> are
  carried through the function unchanged and no statement below depends on them.
\<close>

record cell =
  aname :: string
  cycfail :: real

text \<open>Python's \<open>sub in s\<close> on strings: some suffix of \<open>s\<close> starts with \<open>sub\<close>.\<close>

fun str_contains :: "string \<Rightarrow> string \<Rightarrow> bool" where
  "str_contains sub [] = (sub = [])"
| "str_contains sub (c # cs) = (prefix sub (c # cs) \<or> str_contains sub cs)"

text \<open>The \<open>if\<close>/\<open>elif\<close> chain that appends one code per cell to \<open>batchV\<close>.\<close>

definition batch_code :: "string \<Rightarrow> nat" where
  "batch_code name =
     (if str_contains ''Batch1'' name then 1
      else if str_contains ''Batch2'' name then 2
      else if str_contains ''Batch3'' name then 3
      else 0)"

definition batchV :: "cell list \<Rightarrow> nat list" where
  "batchV cells = map (\<lambda>c. batch_code (aname c)) cells"

text \<open>
  \<open>np.int16(0.2*nrst)\<close>: the product is truncated towards zero, which for a count
  \<open>nrst \<ge> 0\<close> is \<open>nrst div 5\<close> (the float nearest to 0.2 exceeds 0.2 by the relative
  error \<open>2 ^ -54\<close>, too little to lift a product over the next integer), and then
  stored in 16 signed bits, wrapping around.
\<close>

definition nval_of :: "int \<Rightarrow> 16 word" where
  "nval_of nrst = word_of_int (nrst div 5)"

text \<open>Python's slice \<open>xs[s:]\<close>: a negative start counts from the end, clipped at 0.\<close>

definition slice_from :: "int \<Rightarrow> 'a list \<Rightarrow> 'a list" where
  "slice_from s xs =
     (let n = int (length xs);
          start = (if s < 0 then max (n + s) 0 else min s n)
      in drop (nat start) xs)"

text \<open>
  \<open>np.argsort\<close> returns the indices in an order that sorts the values. Its default
  algorithm is not stable, so where values tie the order is not fixed: \<open>is_argsort\<close>
  holds of every admissible result, and \<open>argsort\<close> is the stable one.
\<close>

definition is_argsort :: "real list \<Rightarrow> nat list \<Rightarrow> bool" where
  "is_argsort xs p \<longleftrightarrow>
     distinct p \<and> set p = set [0..<length xs] \<and> sorted (map (\<lambda>i. xs ! i) p)"

definition argsort :: "real list \<Rightarrow> nat list" where
  "argsort xs = sort_key (\<lambda>i. xs ! i) [0..<length xs]"

text \<open>
  The dictionaries \<open>X\<close>, \<open>y\<close>, \<open>n\<close> and \<open>iD\<close> have the keys \<open>'trn'\<close>, \<open>'val'\<close> and
  \<open>'tst'\<close>. \<open>iD\<close> holds three boolean masks, each of length \<open>ncell\<close>.
\<close>

record 'a dsets =
  trn :: 'a
  val :: 'a
  tst :: 'a

type_synonym masks = "bool list dsets"

text \<open>
  The draw \<open>np.random.rand(ncell)\<close> is the function \<open>rnd\<close> from the cell's index to a
  value in \<open>[0, 1)\<close>; \<open>irnd\<close> is the draw with the test cells set to 0.
\<close>

definition irnd_of :: "bool list \<Rightarrow> (nat \<Rightarrow> real) \<Rightarrow> real list" where
  "irnd_of tstm rnd = map (\<lambda>i. if tstm ! i then 0 else rnd i) [0..<length tstm]"

text \<open>
  \<open>iD['tst'] = batchV == 3\<close>, and \<open>nrst = ncell - ntst\<close> where \<open>ntst\<close> counts the set
  entries of the test mask.
\<close>

definition tst_mask :: "cell list \<Rightarrow> bool list" where
  "tst_mask cells = map (\<lambda>b. b = 3) (batchV cells)"

definition nrst_of :: "cell list \<Rightarrow> int" where
  "nrst_of cells = int (length cells) - int (length (filter (\<lambda>t. t) (tst_mask cells)))"

text \<open>
  The split, given the permutation \<open>p\<close> that \<open>np.argsort(irnd)\<close> returned. \<open>-nval\<close> is
  negated as a 16-bit integer before it is used as the start of the slice.
\<close>

definition iD_with :: "nat list \<Rightarrow> cell list \<Rightarrow> masks" where
  "iD_with p cells =
     (let ncell = length cells;
          tstm = tst_mask cells;
          nval = nval_of (nrst_of cells);
          top_nval = slice_from (sint (- nval)) p;
          valm = fold (\<lambda>i m. m[i := True]) top_nval (replicate ncell False);
          trnm = map2 (\<lambda>v t. \<not> v \<and> \<not> t) valm tstm
      in \<lparr>trn = trnm, val = valm, tst = tstm\<rparr>)"

definition iD :: "(nat \<Rightarrow> real) \<Rightarrow> cell list \<Rightarrow> masks" where
  "iD rnd cells = iD_with (argsort (irnd_of (tst_mask cells) rnd)) cells"

text \<open>Indexing an array with a boolean mask keeps the entries where the mask is set.\<close>

definition mask_select :: "bool list \<Rightarrow> 'a list \<Rightarrow> 'a list" where
  "mask_select m xs = map snd (filter fst (zip m xs))"

text \<open>The labels \<open>y[dset]\<close> of one split.\<close>

definition labels :: "bool \<Rightarrow> bool list \<Rightarrow> cell list \<Rightarrow> npfloat list" where
  "labels logy m cells =
     (if logy then map np_log10 (mask_select m (map cycfail cells))
      else map Fin (mask_select m (map cycfail cells)))"


subsection \<open>Sample weights\<close>

text \<open>
  \<open>np.histogram(a, bins=4, density=True)\<close> on finite values. The range is the minimum
  and the maximum of the data, \<open>(0, 1)\<close> for no data, and is widened by one half on each
  side when both ends coincide; the edges are \<open>np.linspace(first, last, 5)\<close>. Every bin
  but the last is closed on the left and open on the right; the last bin is closed on
  both sides. With \<open>density=True\<close> the counts are divided by the bin widths and by
  their sum.
\<close>

definition bins :: nat where
  "bins = 4"

definition outer_edges :: "real list \<Rightarrow> real \<times> real" where
  "outer_edges a =
     (let first_edge = (if a = [] then 0 else Min (set a));
          last_edge = (if a = [] then 1 else Max (set a))
      in if first_edge = last_edge then (first_edge - 1 / 2, last_edge + 1 / 2)
         else (first_edge, last_edge))"

definition linspace :: "real \<Rightarrow> real \<Rightarrow> nat \<Rightarrow> real list" where
  "linspace start stop num =
     map (\<lambda>k. start + real k * ((stop - start) / real (num - 1))) [0..<num]"

definition np_in_bin :: "real list \<Rightarrow> nat \<Rightarrow> real \<Rightarrow> bool" where
  "np_in_bin bin_edges i v \<longleftrightarrow>
     bin_edges ! i \<le> v \<and>
     (if i = bins - 1 then v \<le> bin_edges ! (i + 1) else v < bin_edges ! (i + 1))"

definition histogram :: "real list \<Rightarrow> npfloat list \<times> real list" where
  "histogram a =
     (let (first_edge, last_edge) = outer_edges a;
          bin_edges = linspace first_edge last_edge (bins + 1);
          n = map (\<lambda>i. length (filter (np_in_bin bin_edges i) a)) [0..<bins];
          db = map (\<lambda>i. bin_edges ! (i + 1) - bin_edges ! i) [0..<bins];
          hist = map (\<lambda>i. np_div (np_div (Fin (real (n ! i))) (Fin (db ! i)))
                                (Fin (real (sum_list n)))) [0..<bins]
      in (hist, bin_edges))"

text \<open>
  The selection \<open>sel\<close> of the weight loop for bin \<open>ii\<close>: the first bin takes both of
  its edges, every later bin excludes its lower edge and takes its upper edge.
\<close>

definition sel :: "real list \<Rightarrow> nat \<Rightarrow> real \<Rightarrow> bool" where
  "sel bin_edges ii y =
     (let lwr = bin_edges ! ii; upr = bin_edges ! (ii + 1)
      in if ii = 0 then lwr \<le> y \<and> y \<le> upr else lwr < y \<and> y \<le> upr)"

definition invhist_of :: "npfloat list \<Rightarrow> npfloat list" where
  "invhist_of hist = map (\<lambda>h. np_div (np_mean hist) h) hist"

text \<open>
  \<open>weights\<close> starts as \<open>np.ones\<close> and the loop over \<open>range(bins)\<close> overwrites the
  entries that \<open>sel\<close> selects with \<open>invhist[ii]\<close>.
\<close>

definition weights :: "real list \<Rightarrow> npfloat list" where
  "weights y_trn =
     (let (hist, bin_edges) = histogram y_trn;
          invhist = invhist_of hist
      in fold (\<lambda>ii w. map2 (\<lambda>y wj. if sel bin_edges ii y then invhist ! ii else wj) y_trn w)
           [0..<bins] (replicate (length y_trn) (Fin 1)))"

text \<open>
  \<open>np.histogram\<close> raises \<open>ValueError\<close> when the range of the labels is not finite,
  which is the case as soon as one label is an infinity or NaN; \<open>None\<close> stands for that.
\<close>

fun fin_val :: "npfloat \<Rightarrow> real option" where
  "fin_val (Fin r) = Some r"
| "fin_val _ = None"

definition get_weights :: "npfloat list \<Rightarrow> npfloat list option" where
  "get_weights y_trn = map_option weights (those (map fin_val y_trn))"

section \<open>Preprocessing of the Auto MPG table\<close>

text \<open>
  A data frame is the list of its named columns, in order; all columns have the same
  length. The dummy columns that \<open>pd.get_dummies\<close> names \<open>Origin_<value>\<close> carry the
  value in their name.
\<close>

datatype colname =
  MPG | Cylinders | Displacement | Horsepower | Weight | Acceleration | Model_Year
  | Origin | Origin_is npfloat

type_synonym frame = "(colname \<times> npfloat list) list"

definition column_names :: "colname list" where
  "column_names =
     [MPG, Cylinders, Displacement, Horsepower, Weight, Acceleration, Model_Year, Origin]"

text \<open>
  \<open>pd.read_csv(dataset_path, names=column_names, na_values="?", ...)\<close>: the input is
  the list of the file's rows, each the list of its parsed fields, at most eight. A
  field that reads \<open>?\<close> and a field that a short row lacks are NaN.
\<close>

definition read_csv :: "npfloat list list \<Rightarrow> frame" where
  "read_csv rows =
     map (\<lambda>k. (column_names ! k, map (\<lambda>r. if k < length r then r ! k else NaN) rows))
       [0..<length column_names]"

definition nrows :: "frame \<Rightarrow> nat" where
  "nrows df = (case df of [] \<Rightarrow> 0 | (name, col) # rest \<Rightarrow> length col)"

text \<open>\<open>data.dropna(inplace=True)\<close> keeps the rows that hold no NaN in any column.\<close>

definition dropna :: "frame \<Rightarrow> frame" where
  "dropna df =
     (let keep = filter (\<lambda>i. list_all (\<lambda>(name, col). col ! i \<noteq> NaN) df) [0..<nrows df]
      in map (\<lambda>(name, col). (name, map (\<lambda>i. col ! i) keep)) df)"

text \<open>
  \<open>pd.get_dummies(data['Origin'], prefix='Origin')\<close>: one 0/1 column per distinct value
  of the column, the values in increasing order; NaN is no category.
\<close>

fun np_le :: "npfloat \<Rightarrow> npfloat \<Rightarrow> bool" where
  "np_le NaN _ = False"
| "np_le _ NaN = False"
| "np_le NInf _ = True"
| "np_le _ PInf = True"
| "np_le (Fin a) (Fin b) = (a \<le> b)"
| "np_le _ _ = False"

fun insert_level :: "npfloat \<Rightarrow> npfloat list \<Rightarrow> npfloat list" where
  "insert_level v [] = [v]"
| "insert_level v (c # cs) =
     (if v = c then c # cs
      else if np_le v c then v # c # cs
      else c # insert_level v cs)"

definition levels :: "npfloat list \<Rightarrow> npfloat list" where
  "levels col = foldr insert_level (filter (\<lambda>v. v \<noteq> NaN) col) []"

definition get_dummies :: "npfloat list \<Rightarrow> frame" where
  "get_dummies col =
     map (\<lambda>v. (Origin_is v, map (\<lambda>x. if x = v then Fin 1 else Fin 0) col)) (levels col)"

text \<open>
  \<open>data = pd.concat([data, new_origin], axis=1)\<close> followed by
  \<open>data.drop('Origin', axis=1, inplace=True)\<close>. Indexing a frame by a name it lacks
  raises \<open>KeyError\<close>; the frame that \<open>read_csv\<close> built has the column.
\<close>

definition encode_origin :: "frame \<Rightarrow> frame option" where
  "encode_origin df =
     (case map_of df Origin of
        None \<Rightarrow> None
      | Some origin \<Rightarrow> Some (filter (\<lambda>(name, col). name \<noteq> Origin) (df @ get_dummies origin)))"

text \<open>
  The reductions \<open>x.mean()\<close> and \<open>x.std()\<close> of a pandas column skip NaN. The mean of no
  values is NaN; the standard deviation is the sample one (\<open>ddof=1\<close>) and is NaN for
  fewer than two values.
\<close>

definition pd_mean :: "npfloat list \<Rightarrow> npfloat" where
  "pd_mean x =
     (let vals = filter (\<lambda>v. v \<noteq> NaN) x
      in if vals = [] then NaN else np_div (np_sum vals) (Fin (real (length vals))))"

definition pd_std :: "npfloat list \<Rightarrow> npfloat" where
  "pd_std x =
     (let vals = filter (\<lambda>v. v \<noteq> NaN) x; count = length vals
      in if count \<le> 1 then NaN
         else let avg = np_div (np_sum vals) (Fin (real count));
                  sqr = map (\<lambda>v. np_mul (np_sub avg v) (np_sub avg v)) vals
              in np_sqrt (np_div (np_sum sqr) (Fin (real (count - 1)))))"

text \<open>The normalization \<open>lambda x: (x - x.mean()) / x.std()\<close> of one column.\<close>

definition normalize_col :: "npfloat list \<Rightarrow> npfloat list" where
  "normalize_col x = map (\<lambda>v. np_div (np_sub v (pd_mean x)) (pd_std x)) x"

text \<open>
  \<open>X_cols = data.columns[1:]\<close> are all columns but the first, and
  \<open>data[X_cols] = data[X_cols].apply(...)\<close> normalizes each of them.
\<close>

definition normalize_inputs :: "frame \<Rightarrow> frame" where
  "normalize_inputs df =
     (case df of
        [] \<Rightarrow> []
      | y # xs \<Rightarrow> y # map (\<lambda>(name, col). (name, normalize_col col)) xs)"

definition X_cols :: "frame \<Rightarrow> colname list" where
  "X_cols df = tl (map fst df)"

definition preprocess :: "npfloat list list \<Rightarrow> frame option" where
  "preprocess rows = map_option normalize_inputs (encode_origin (dropna (read_csv rows)))"

text \<open>
  The mean and the sample standard deviation of real numbers, and a column that takes
  at least two values.
\<close>

definition mean :: "real list \<Rightarrow> real" where
  "mean xs = sum_list xs / real (length xs)"

definition std :: "real list \<Rightarrow> real" where
  "std xs = sqrt (sum_list (map (\<lambda>x. (mean xs - x)\<^sup>2) xs) / real (length xs - 1))"



section \<open>Fetching the data files\<close>

text \<open>
  The world outside the process: the local files, each with its content, and the
  requests sent to the network so far. The network answers a request with the content
  behind the URL or fails (\<open>None\<close>).
\<close>

datatype error = URLError | OSError | UnboundLocalError | ValueError

record 'c world =
  files :: "string \<rightharpoonup> 'c"
  requests :: "string list"

text \<open>
  \<open>urllib.request.urlretrieve(url, filename)\<close> sends one request; it raises when the
  request fails and otherwise writes the answer to the file, replacing what was there.
\<close>

definition urlretrieve ::
  "(string \<Rightarrow> 'c option) \<Rightarrow> string \<Rightarrow> string \<Rightarrow> 'c world \<Rightarrow> (error + unit) \<times> 'c world" where
  "urlretrieve net url filename w =
     (let w' = w\<lparr>requests := requests w @ [url]\<rparr>
      in case net url of
           None \<Rightarrow> (Inl URLError, w')
         | Some c \<Rightarrow> (Inr (), w'\<lparr>files := (files w')(filename \<mapsto> c)\<rparr>))"

text \<open>
  \<open>keras.utils.get_file(fname, origin)\<close>, as Keras documents it: the file lives in the
  cache directory \<open>~/.keras/datasets\<close>; when it is already there its path is returned
  and nothing is downloaded, otherwise it is downloaded from \<open>origin\<close>.
\<close>

definition cache_path :: "string \<Rightarrow> string" where
  "cache_path fname = ''~/.keras/datasets/'' @ fname"

definition get_file ::
  "(string \<Rightarrow> 'c option) \<Rightarrow> string \<Rightarrow> string \<Rightarrow> 'c world \<Rightarrow> (error + string) \<times> 'c world" where
  "get_file net fname origin w =
     (let fpath = cache_path fname
      in if fpath \<in> dom (files w) then (Inr fpath, w)
         else case urlretrieve net origin fpath w of
                (Inl e, w') \<Rightarrow> (Inl e, w')
              | (Inr u, w') \<Rightarrow> (Inr fpath, w'))"

definition mpg_url :: string where
  "mpg_url = ''http://archive.ics.uci.edu/ml/machine-learning-databases/auto-mpg/auto-mpg.data''"

text \<open>The first cell of the Keras exercise.\<close>

definition dataset_path ::
  "(string \<Rightarrow> 'c option) \<Rightarrow> 'c world \<Rightarrow> (error + string) \<times> 'c world" where
  "dataset_path net w = get_file net ''auto-mpg.data'' mpg_url w"

text \<open>
  \<open>get_data\<close> as a whole. It first retrieves the file, whether or not it is there,
  then opens it (\<open>h5py.File\<close> raises \<open>OSError\<close> for a missing file) and walks over the
  cells. For a file without cells the loop never assigns \<open>farr\<close>, and
  \<open>nfeat = farr.size\<close> raises \<open>UnboundLocalError\<close>. Then it builds the split and the
  labels, and computes the weights of the training labels. Of the returned tuple the
  model keeps \<open>y\<close>, \<open>n\<close>, \<open>iD\<close> and \<open>weights\<close>.
\<close>

definition remote_url :: string where
  "remote_url = ''https://drive.google.com/uc?export=download&id=1orXDHcq2TzRLhGkHyWVtsuGn7_10pSAn''"

definition fname :: string where
  "fname = ''energy_capacity.h5''"

record data =
  data_y :: "npfloat list dsets"
  data_n :: "nat dsets"
  data_iD :: masks
  data_weights :: "npfloat list"

definition np_count :: "bool list \<Rightarrow> nat" where
  "np_count m = length (filter (\<lambda>t. t) m)"

definition get_data ::
  "bool \<Rightarrow> (string \<Rightarrow> cell list option) \<Rightarrow> (nat \<Rightarrow> real) \<Rightarrow> cell list world
     \<Rightarrow> (error + data) \<times> cell list world" where
  "get_data logy net rnd w =
     (case urlretrieve net remote_url fname w of
        (Inl e, w') \<Rightarrow> (Inl e, w')
      | (Inr u, w') \<Rightarrow>
          (case files w' fname of
             None \<Rightarrow> (Inl OSError, w')
           | Some cells \<Rightarrow>
               if cells = [] then (Inl UnboundLocalError, w')
               else
               (let m = iD rnd cells;
                    y = \<lparr>trn = labels logy (trn m) cells,
                         val = labels logy (val m) cells,
                         tst = labels logy (tst m) cells\<rparr>;
                    n = \<lparr>trn = np_count (trn m), val = np_count (val m), tst = np_count (tst m)\<rparr>
                in case get_weights (trn y) of
                     None \<Rightarrow> (Inl ValueError, w')
                   | Some ws \<Rightarrow>
                       (Inr \<lparr>data_y = y, data_n = n, data_iD = m, data_weights = ws\<rparr>, w'))))"

section \<open>Example datasets\<close>

text \<open>
  A file of three cells, one per batch, and a file of seven cells that holds a cell
  outside every batch and a cell whose name mentions two batches. \<open>rnd7\<close> is a draw of
  distinct positive values.
\<close>

definition cells3 :: "cell list" where
  "cells3 =
     [\<lparr>aname = ''Batch1_c0'', cycfail = 100\<rparr>,
      \<lparr>aname = ''Batch2_c0'', cycfail = 1000\<rparr>,
      \<lparr>aname = ''Batch3_c0'', cycfail = 10000\<rparr>]"

definition cells7 :: "cell list" where
  "cells7 =
     [\<lparr>aname = ''Batch1_c0'', cycfail = 300\<rparr>,
      \<lparr>aname = ''Batch1_c1'', cycfail = 500\<rparr>,
      \<lparr>aname = ''Batch2_c0'', cycfail = 700\<rparr>,
      \<lparr>aname = ''Batch2_c1'', cycfail = 900\<rparr>,
      \<lparr>aname = ''Batch3_c0'', cycfail = 1100\<rparr>,
      \<lparr>aname = ''calib_c0'', cycfail = 1300\<rparr>,
      \<lparr>aname = ''Batch3_Batch1'', cycfail = 1500\<rparr>]"

definition rnd7 :: "nat \<Rightarrow> real" where
  "rnd7 i = (real i + 1) / 8"

text \<open>
  Rows of the Auto MPG file: five cars, one of them with a missing horsepower, and two
  cars of the same origin.
\<close>

definition cars5 :: "npfloat list list" where
  "cars5 =
     [[Fin 18, Fin 8, Fin 307, Fin 130, Fin 3504, Fin 12, Fin 70, Fin 1],
      [Fin 24, Fin 4, Fin 113, Fin 95, Fin 2372, Fin 15, Fin 70, Fin 3],
      [Fin 25, Fin 4, Fin 98, NaN, Fin 2046, Fin 19, Fin 71, Fin 1],
      [Fin 26, Fin 4, Fin 97, Fin 46, Fin 1835, Fin (41 / 2), Fin 71, Fin 2],
      [Fin 27, Fin 6, Fin 200, Fin 85, Fin 2587, Fin 16, Fin 72, Fin 1]]"

definition cars2 :: "npfloat list list" where
  "cars2 =
     [[Fin 18, Fin 8, Fin 307, Fin 130, Fin 3504, Fin 12, Fin 70, Fin 1],
      [Fin 15, Fin 6, Fin 350, Fin 165, Fin 3693, Fin (23 / 2), Fin 71, Fin 1]]"

text \<open>
  A file of six cells in which a training label lies on an inner edge of the histogram.
\<close>

definition cells6 :: "cell list" where
  "cells6 =
     [\<lparr>aname = ''Batch1_c0'', cycfail = 100\<rparr>,
      \<lparr>aname = ''Batch1_c1'', cycfail = 300\<rparr>,
      \<lparr>aname = ''Batch2_c0'', cycfail = 500\<rparr>,
      \<lparr>aname = ''Batch2_c1'', cycfail = 500\<rparr>,
      \<lparr>aname = ''Batch2_c2'', cycfail = 900\<rparr>,
      \<lparr>aname = ''Batch3_c0'', cycfail = 1100\<rparr>]"

text \<open>
  A world without files, and a network that serves one file under the URL of the
  battery data and nothing else.
\<close>

definition w0 :: "cell list world" where
  "w0 = \<lparr>files = Map.empty, requests = []\<rparr>"

definition serve :: "cell list \<Rightarrow> string \<Rightarrow> cell list option" where
  "serve cells url = (if url = remote_url then Some cells else None)"

text \<open>A network that serves the five-car table under the URL of the Auto MPG file.\<close>

definition serve_mpg :: "string \<Rightarrow> npfloat list list option" where
  "serve_mpg url = (if url = mpg_url then Some cars5 else None)"

section \<open>Parameter counts\<close>

lemma dense_params_closed: "dense_params n_in units = (n_in + 1) * units"
  by (simp add: dense_params_def)

lemma build_model_default: "build_model 3 128 = [128, 128, 128, 1]"
  by (simp add: build_model_def numeral_2_eq_2)

text \<open>
  Claim C4. Every dense layer has \<open>(inputs + 1) \<times> units\<close> parameters; with nine inputs
  the 64/64/1 network has \<open>(9+1)\<times>64 + (64+1)\<times>64 + (64+1) = 4865\<close> parameters, and the
  network of three hidden layers of 128 units, as written out in the answer cell and as
  \<open>build_model()\<close> builds it, has
  \<open>(9+1)\<times>128 + (128+1)\<times>128 + (128+1)\<times>128 + (128+1) = 34433\<close>, the number the
  notebook asserts.
\<close>

theorem param_counts_closed_form:
  "dense_params n_in units = (n_in + 1) * units
   \<and> count_params 9 tutorial_model = (9 + 1) * 64 + (64 + 1) * 64 + (64 + 1)
   \<and> count_params 9 tutorial_model = 4865
   \<and> count_params 9 overfit_model
       = (9 + 1) * 128 + (128 + 1) * 128 + (128 + 1) * 128 + (128 + 1)
   \<and> count_params 9 overfit_model = 34433
   \<and> count_params 9 (build_model 3 128) = 34433"
  by (simp add: dense_params_def tutorial_model_def overfit_model_def build_model_default)

section \<open>The split of \<open>get_data\<close>\<close>

lemma fold_update_length:
  "length (fold (\<lambda>i m. m[i := True]) is m) = length m"
  by (induction "is" arbitrary: m) auto

lemma fold_update_nth:
  "i < length m \<Longrightarrow> fold (\<lambda>i m. m[i := True]) is m ! i \<longleftrightarrow> m ! i \<or> i \<in> set is"
proof (induction "is" arbitrary: m)
  case Nil
  then show ?case by simp
next
  case (Cons j js)
  have "fold (\<lambda>i m. m[i := True]) (j # js) m ! i
        = fold (\<lambda>i m. m[i := True]) js (m[j := True]) ! i" by simp
  also have "\<dots> \<longleftrightarrow> m[j := True] ! i \<or> i \<in> set js"
    using Cons.prems by (intro Cons.IH) simp
  also have "\<dots> \<longleftrightarrow> m ! i \<or> i \<in> set (j # js)"
    using Cons.prems by (cases "i = j") simp_all
  finally show ?case .
qed

lemma tst_length: "length (tst (iD_with p cells)) = length cells"
  by (simp add: iD_with_def Let_def batchV_def tst_mask_def)

lemma val_length: "length (val (iD_with p cells)) = length cells"
  by (simp add: iD_with_def Let_def fold_update_length)

lemma trn_length: "length (trn (iD_with p cells)) = length cells"
  by (simp add: iD_with_def Let_def fold_update_length batchV_def tst_mask_def)

lemma tst_nth:
  "i < length cells \<Longrightarrow> tst (iD_with p cells) ! i \<longleftrightarrow> batch_code (aname (cells ! i)) = 3"
  by (simp add: iD_with_def Let_def batchV_def tst_mask_def)

lemma trn_nth:
  "i < length cells \<Longrightarrow>
   trn (iD_with p cells) ! i \<longleftrightarrow> \<not> val (iD_with p cells) ! i \<and> \<not> tst (iD_with p cells) ! i"
  by (simp add: iD_with_def Let_def batchV_def fold_update_length tst_mask_def)

lemma str_contains_sublist: "str_contains sub s \<longleftrightarrow> sublist sub s"
  by (induction s) (auto simp: sublist_Cons_right)

lemma val_nth:
  "i < length cells \<Longrightarrow>
   val (iD_with p cells) ! i \<longleftrightarrow> i \<in> set (slice_from (sint (- nval_of (nrst_of cells))) p)"
  by (simp add: iD_with_def Let_def fold_update_nth)

lemma sint_neg_small:
  assumes "0 \<le> k" "k < 32768"
  shows "sint (- (word_of_int k :: 16 word)) = - k"
proof -
  have "sint (word_of_int (- k) :: 16 word) = signed_take_bit 15 (- k)"
    by (simp only: sint_sbintrunc') simp
  also have "\<dots> = - k"
    using assms by (intro signed_take_bit_int_eq_self) simp_all
  finally show ?thesis by simp
qed

lemma is_argsort_argsort: "is_argsort xs (argsort xs)"
  by (simp add: is_argsort_def argsort_def)

lemma is_argsort_length: "is_argsort xs p \<Longrightarrow> length p = length xs"
proof -
  assume a: "is_argsort xs p"
  from a have d: "distinct p" by (simp add: is_argsort_def)
  from a have sp: "set p = {0..<length xs}" by (simp add: is_argsort_def)
  from d have "length p = card (set p)" by (simp add: distinct_card)
  also have "\<dots> = length xs" by (simp add: sp)
  finally show ?thesis .
qed

lemma irnd_length: "length (irnd_of tm rnd) = length tm"
  by (simp add: irnd_of_def)

lemma irnd_nth: "i < length tm \<Longrightarrow> irnd_of tm rnd ! i = (if tm ! i then 0 else rnd i)"
  by (simp add: irnd_of_def)

lemma tst_mask_length: "length (tst_mask cells) = length cells"
  by (simp add: tst_mask_def batchV_def)

lemma nrst_bounds: "0 \<le> nrst_of cells \<and> nrst_of cells \<le> int (length cells)"
proof -
  have "length (filter (\<lambda>t. t) (tst_mask cells)) \<le> length (tst_mask cells)"
    by (rule length_filter_le)
  then show ?thesis by (simp add: nrst_of_def tst_mask_length)
qed

lemma slice_from_neg:
  "0 \<le> k \<Longrightarrow> k \<le> int (length xs) \<Longrightarrow>
   slice_from (- k) xs = (if k = 0 then xs else drop (length xs - nat k) xs)"
  by (auto simp: slice_from_def Let_def nat_diff_distrib' max_def)

text \<open>
  With at least five cells outside batch 3 the slice keeps the last \<open>nval \<ge> 1\<close> indices
  of the sorted order. When every cell outside batch 3 drew a positive value, the test
  cells, set to 0, sort before all of them, so none is among the last \<open>nval\<close>.
\<close>

lemma top_nval_not_tst:
  assumes srt: "is_argsort (irnd_of (tst_mask cells) rnd) p"
    and k1: "5 \<le> nrst_of cells" and k2: "nrst_of cells div 5 < 32768"
    and pos: "\<forall>j<length cells. \<not> tst_mask cells ! j \<longrightarrow> 0 < rnd j"
    and i: "i < length cells" and ti: "tst_mask cells ! i"
  shows "\<not> val (iD_with p cells) ! i"
proof
  let ?n = "length cells" and ?tm = "tst_mask cells"
  let ?xs = "irnd_of ?tm rnd"
  let ?k = "nrst_of cells div 5"
  assume v: "val (iD_with p cells) ! i"
  have lp: "length p = ?n" using is_argsort_length[OF srt] by (simp add: irnd_length tst_mask_length)
  have kpos: "0 < ?k" using k1 by simp
  have kle: "?k \<le> int ?n" using nrst_bounds[of cells] by linarith
  have "sint (- nval_of (nrst_of cells)) = - ?k"
    unfolding nval_of_def using kpos k2 by (intro sint_neg_small) simp_all
  then have "i \<in> set (drop (?n - nat ?k) p)"
    using v i kpos kle lp by (simp add: val_nth slice_from_neg)
  then obtain j where j: "?n - nat ?k \<le> j" "j < ?n" "p ! j = i"
    using lp by (auto simp: in_set_conv_nth) (metis add.commute le_add1 less_diff_conv)
  have dist: "distinct p" and setp: "set p = {0..<?n}" and sorted: "sorted (map (\<lambda>i. ?xs ! i) p)"
    using srt by (simp_all add: is_argsort_def irnd_length tst_mask_length)
  have all_tst: "?tm ! (p ! j')" if "j' \<le> j" for j'
  proof (rule ccontr)
    assume nt: "\<not> ?tm ! (p ! j')"
    have j'n: "j' < ?n" using that j by simp
    have pj': "p ! j' < ?n" using setp j'n lp by (metis atLeastLessThan_iff nth_mem)
    have "?xs ! (p ! j') \<le> ?xs ! (p ! j)"
      using sorted_nth_mono[OF sorted, of j' j] that j lp j'n by simp
    moreover have "?xs ! (p ! j) = 0" using j i ti by (simp add: irnd_nth tst_mask_length)
    moreover have "0 < ?xs ! (p ! j')" using nt pj' pos by (simp add: irnd_nth tst_mask_length)
    ultimately show False by simp
  qed
  have inj: "inj_on (\<lambda>a. p ! a) {0..j}"
  proof (rule inj_onI)
    fix x y assume "x \<in> {0..j}" "y \<in> {0..j}" "p ! x = p ! y"
    then show "x = y" using dist j lp by (simp add: nth_eq_iff_index_eq)
  qed
  have sub: "(\<lambda>a. p ! a) ` {0..j} \<subseteq> {a. a < length ?tm \<and> ?tm ! a}"
  proof
    fix a assume "a \<in> (\<lambda>a. p ! a) ` {0..j}"
    then obtain j' where j': "j' \<le> j" "a = p ! j'" by auto
    have "p ! j' \<in> set p" using j' j lp by simp
    then have "p ! j' < ?n" using setp by simp
    then show "a \<in> {a. a < length ?tm \<and> ?tm ! a}" using all_tst[OF j'(1)] j' by (simp add: tst_mask_length)
  qed
  have "card ((\<lambda>a. p ! a) ` {0..j}) \<le> card {a. a < length ?tm \<and> ?tm ! a}"
    by (rule card_mono[OF _ sub]) simp
  then have "j + 1 \<le> length (filter (\<lambda>t. t) ?tm)"
    by (simp add: card_image[OF inj] length_filter_conv_card)
  then have "nrst_of cells \<le> int ?n - int (j + 1)" by (simp add: nrst_of_def)
  moreover have "int ?n - int (j + 1) < ?k" using j kpos kle by linarith
  moreover have "?k \<le> nrst_of cells" using k1 by presburger
  ultimately show False by linarith
qed

subsection \<open>The example datasets, evaluated\<close>

lemma bc7: "batchV cells7 = [1,1,2,2,3,0,1]"
  by (simp add: cells7_def batchV_def batch_code_def)

lemma tm7: "tst_mask cells7 = [False,False,False,False,True,False,False]"
  by (simp add: tst_mask_def bc7)

lemma nrst7: "nrst_of cells7 = 6"
  by (simp add: nrst_of_def tm7) (simp add: cells7_def)

lemma irnd7: "irnd_of (tst_mask cells7) rnd7 = [1/8, 2/8, 3/8, 4/8, 0, 6/8, 7/8]"
  by (simp add: irnd_of_def tm7 rnd7_def upt_rec_numeral)

lemma as7: "argsort (irnd_of (tst_mask cells7) rnd7) = [4,0,1,2,3,5,6]"
  by (simp add: irnd7 argsort_def upt_rec_numeral)

lemma iD7: "iD rnd7 cells7 = \<lparr>trn = [True,True,True,True,False,True,False],
   val = [False,False,False,False,False,False,True], tst = [False,False,False,False,True,False,False]\<rparr>"
  unfolding iD_def as7
  by (simp add: iD_with_def tm7 nrst7 nval_of_def slice_from_def Let_def) (simp add: cells7_def)

lemma val_all_when_nval_zero:
  assumes "is_argsort (irnd_of (tst_mask cells) rnd) p" "nrst_of cells < 5" "i < length cells"
  shows "val (iD_with p cells) ! i"
proof -
  have "nrst_of cells div 5 = 0" using assms(2) nrst_bounds[of cells] by simp
  then have "sint (- nval_of (nrst_of cells)) = 0" by (simp add: nval_of_def)
  moreover have "set p = {0..<length cells}"
    using assms(1) by (simp add: is_argsort_def irnd_length tst_mask_length)
  ultimately show ?thesis using assms(3) by (simp add: val_nth slice_from_def)
qed

subsection \<open>Test cells and cells outside every batch\<close>

lemma batch_code_3_iff:
  "batch_code nm = 3 \<longleftrightarrow>
     str_contains ''Batch3'' nm \<and> \<not> str_contains ''Batch1'' nm \<and> \<not> str_contains ''Batch2'' nm"
  by (simp add: batch_code_def)

lemma tst_is_mask: "tst (iD_with p cells) = tst_mask cells"
  by (simp add: iD_with_def Let_def)

text \<open>
  Under the same conditions the three masks partition the cells.
\<close>

lemma iD_partition:
  assumes "is_argsort (irnd_of (tst_mask cells) rnd) p"
    and "5 \<le> nrst_of cells" and "nrst_of cells div 5 < 32768"
    and "\<forall>j<length cells. \<not> tst_mask cells ! j \<longrightarrow> 0 < rnd j"
    and "i < length cells"
  shows "(trn (iD_with p cells) ! i \<and> \<not> val (iD_with p cells) ! i \<and> \<not> tst (iD_with p cells) ! i)
       \<or> (\<not> trn (iD_with p cells) ! i \<and> val (iD_with p cells) ! i \<and> \<not> tst (iD_with p cells) ! i)
       \<or> (\<not> trn (iD_with p cells) ! i \<and> \<not> val (iD_with p cells) ! i \<and> tst (iD_with p cells) ! i)"
proof -
  have "tst (iD_with p cells) ! i \<longrightarrow> \<not> val (iD_with p cells) ! i"
    using top_nval_not_tst[OF assms(1-4) assms(5)] by (simp add: tst_is_mask)
  then show ?thesis using trn_nth[OF assms(5), of p] by blast
qed

text \<open>
  Claim C10. A cell whose group name contains none of \<open>Batch1\<close>, \<open>Batch2\<close>, \<open>Batch3\<close>
  gets batch code 0, is never in the test mask, and is in the train mask or in the
  validation mask, whatever permutation \<open>argsort\<close> returned and whatever was drawn.
\<close>

theorem unbatched_cell_in_trn_or_val:
  assumes "i < length cells"
    and "\<not> str_contains ''Batch1'' (aname (cells ! i))"
    and "\<not> str_contains ''Batch2'' (aname (cells ! i))"
    and "\<not> str_contains ''Batch3'' (aname (cells ! i))"
  shows "batchV cells ! i = 0
       \<and> \<not> tst (iD_with p cells) ! i
       \<and> (trn (iD_with p cells) ! i \<or> val (iD_with p cells) ! i)
       \<and> \<not> tst (iD rnd cells) ! i
       \<and> (trn (iD rnd cells) ! i \<or> val (iD rnd cells) ! i)"
proof -
  have b: "batchV cells ! i = 0" using assms by (simp add: batchV_def batch_code_def)
  have c: "batch_code (aname (cells ! i)) \<noteq> 3" using assms by (simp add: batch_code_def)
  have t: "\<not> tst (iD_with q cells) ! i" for q using assms(1) c by (simp add: tst_nth)
  have v: "trn (iD_with q cells) ! i \<or> val (iD_with q cells) ! i" for q
    using assms(1) t[of q] by (simp add: trn_nth)
  show ?thesis using b t v by (simp add: iD_def)
qed

theorem unbatched_cell_witness:
  "5 < length cells7
   \<and> \<not> str_contains ''Batch1'' (aname (cells7 ! 5))
   \<and> \<not> str_contains ''Batch2'' (aname (cells7 ! 5))
   \<and> \<not> str_contains ''Batch3'' (aname (cells7 ! 5))
   \<and> batchV cells7 ! 5 = 0 \<and> \<not> tst (iD rnd7 cells7) ! 5
   \<and> trn (iD rnd7 cells7) ! 5 \<and> \<not> val (iD rnd7 cells7) ! 5"
proof -
  have h: "5 < length cells7" "\<not> str_contains ''Batch1'' (aname (cells7 ! 5))"
    "\<not> str_contains ''Batch2'' (aname (cells7 ! 5))" "\<not> str_contains ''Batch3'' (aname (cells7 ! 5))"
    by (simp_all add: cells7_def)
  show ?thesis
    using unbatched_cell_in_trn_or_val[OF h, of "argsort (irnd_of (tst_mask cells7) rnd7)" rnd7] h
    by (simp add: iD7)
qed

text \<open>
  Claim C5, amended. A cell is in the test mask exactly when its batch code is 3, that
  is when its name contains \<open>Batch3\<close> and neither \<open>Batch1\<close> nor \<open>Batch2\<close>, which the
  \<open>elif\<close> chain tests first. The test mask depends neither on the draw nor on the
  permutation. No test cell is in the train mask; and none is in the validation mask
  when at least five and fewer than 163840 cells lie outside batch 3 and each of them
  drew a positive value.
\<close>

theorem tst_iff_batch_code_3:
  assumes "i < length cells"
  shows "(tst (iD_with p cells) ! i \<longleftrightarrow> batch_code (aname (cells ! i)) = 3)
       \<and> (batch_code (aname (cells ! i)) = 3 \<longleftrightarrow>
            str_contains ''Batch3'' (aname (cells ! i))
            \<and> \<not> str_contains ''Batch1'' (aname (cells ! i))
            \<and> \<not> str_contains ''Batch2'' (aname (cells ! i)))
       \<and> tst (iD_with p cells) = tst_mask cells
       \<and> tst (iD rnd cells) = tst_mask cells
       \<and> (tst (iD_with p cells) ! i \<longrightarrow> \<not> trn (iD_with p cells) ! i)
       \<and> (is_argsort (irnd_of (tst_mask cells) rnd) p
            \<and> 5 \<le> nrst_of cells \<and> nrst_of cells div 5 < 32768
            \<and> (\<forall>j<length cells. \<not> tst_mask cells ! j \<longrightarrow> 0 < rnd j)
            \<and> tst (iD_with p cells) ! i
          \<longrightarrow> \<not> val (iD_with p cells) ! i)"
proof -
  have 1: "tst (iD_with p cells) ! i \<longleftrightarrow> batch_code (aname (cells ! i)) = 3"
    using assms by (rule tst_nth)
  have 2: "tst (iD_with p cells) ! i \<longrightarrow> \<not> trn (iD_with p cells) ! i"
    using assms by (simp add: trn_nth)
  have 3: "is_argsort (irnd_of (tst_mask cells) rnd) p
            \<and> 5 \<le> nrst_of cells \<and> nrst_of cells div 5 < 32768
            \<and> (\<forall>j<length cells. \<not> tst_mask cells ! j \<longrightarrow> 0 < rnd j)
            \<and> tst (iD_with p cells) ! i
          \<longrightarrow> \<not> val (iD_with p cells) ! i"
    using assms top_nval_not_tst[of cells rnd p i] by (simp add: tst_is_mask)
  show ?thesis using 1 2 3 by (simp add: batch_code_3_iff tst_is_mask iD_def)
qed

theorem tst_iff_batch_code_3_witness:
  "4 < length cells7
   \<and> is_argsort (irnd_of (tst_mask cells7) rnd7) [4, 0, 1, 2, 3, 5, 6]
   \<and> 5 \<le> nrst_of cells7 \<and> nrst_of cells7 div 5 < 32768
   \<and> list_all (\<lambda>j. tst_mask cells7 ! j \<or> 0 < rnd7 j) [0..<length cells7]
   \<and> batch_code (aname (cells7 ! 4)) = 3
   \<and> tst (iD_with [4, 0, 1, 2, 3, 5, 6] cells7) ! 4
   \<and> \<not> trn (iD_with [4, 0, 1, 2, 3, 5, 6] cells7) ! 4
   \<and> \<not> val (iD_with [4, 0, 1, 2, 3, 5, 6] cells7) ! 4"
proof -
  have l: "4 < length cells7" by (simp add: cells7_def)
  have a: "is_argsort (irnd_of (tst_mask cells7) rnd7) [4, 0, 1, 2, 3, 5, 6]"
    using is_argsort_argsort[of "irnd_of (tst_mask cells7) rnd7"] by (simp only: as7)
  have n: "5 \<le> nrst_of cells7 \<and> nrst_of cells7 div 5 < 32768" by (simp add: nrst7)
  have r: "\<forall>j<length cells7. \<not> tst_mask cells7 ! j \<longrightarrow> 0 < rnd7 j"
    by (simp add: rnd7_def)
  have b: "batch_code (aname (cells7 ! 4)) = 3" by (simp add: cells7_def batch_code_def)
  note T = tst_iff_batch_code_3[OF l, of "[4, 0, 1, 2, 3, 5, 6]" rnd7]
  from T b have t: "tst (iD_with [4, 0, 1, 2, 3, 5, 6] cells7) ! 4" by blast
  from T t have nt: "\<not> trn (iD_with [4, 0, 1, 2, 3, 5, 6] cells7) ! 4" by blast
  from T t a n r have nv: "\<not> val (iD_with [4, 0, 1, 2, 3, 5, 6] cells7) ! 4" by blast
  have r': "list_all (\<lambda>j. tst_mask cells7 ! j \<or> 0 < rnd7 j) [0..<length cells7]"
    by (simp add: list_all_iff rnd7_def)
  from l a n r' b t nt nv show ?thesis by blast
qed

text \<open>
  Claim C5 as stated fails on the seven-cell file: the name of cell 6 contains
  \<open>Batch3\<close>, but \<open>Batch1\<close> is found first, so the cell is not a test cell and lands in
  the validation set.
\<close>

theorem batch3_name_outside_tst:
  "str_contains ''Batch3'' (aname (cells7 ! 6))
   \<and> \<not> tst (iD rnd7 cells7) ! 6 \<and> val (iD rnd7 cells7) ! 6"
  by (simp add: iD7) (simp add: cells7_def)

text \<open>
  The three-cell file: two cells lie outside batch 3, so \<open>nval = 0\<close> and the slice
  \<open>[-0:]\<close> keeps every index.
\<close>

lemma iD3:
  "iD rnd7 cells3 =
     \<lparr>trn = [False, False, False], val = [True, True, True], tst = [False, False, True]\<rparr>"
  by (simp add: iD_def iD_with_def cells3_def batchV_def batch_code_def irnd_of_def argsort_def
      nval_of_def nrst_of_def tst_mask_def rnd7_def slice_from_def Let_def upt_rec_numeral)

section \<open>Properties of the sample weights\<close>

lemma upt4: "[0..<4] = [0, 1, 2, 3]" by code_simp
lemma upt5: "[0..<5] = [0, 1, 2, 3, 4]" by code_simp

lemma edges3:
  "histogram [100, 300, 500]
     = ([Fin (1/300), Fin 0, Fin (1/300), Fin (1/300)], [100, 200, 300, 400, 500])"
  by (simp add: histogram_def outer_edges_def linspace_def bins_def np_in_bin_def upt4 upt5 Let_def)

lemma w3: "weights [100, 300, 500] = [Fin (3/4), PInf, Fin (3/4)]"
  by (simp add: weights_def edges3 invhist_of_def np_mean_def np_sum_def sel_def bins_def upt4 Let_def)

lemma weights_nth:
  assumes "j < length y_trn"
  shows "weights y_trn ! j =
     (let bin_edges = snd (histogram y_trn); invhist = invhist_of (fst (histogram y_trn)); y = y_trn ! j
      in if sel bin_edges 3 y then invhist ! 3
         else if sel bin_edges 2 y then invhist ! 2
         else if sel bin_edges 1 y then invhist ! 1
         else if sel bin_edges 0 y then invhist ! 0
         else Fin 1)"
  using assms by (simp add: weights_def bins_def upt4 Let_def split: prod.split)

text \<open>
  The training labels \<open>[100, 300, 500]\<close>, with the label 300 on an inner edge, and two
  equal labels, which lie on the middle edge of the widened range.
\<close>

lemma edge_label_weights:
  "weights [100, 300, 500] = [Fin (3 / 4), PInf, Fin (3 / 4)]
   \<and> snd (histogram [100, 300, 500]) = [100, 200, 300, 400, 500]
   \<and> fst (histogram [100, 300, 500]) = [Fin (1 / 300), Fin 0, Fin (1 / 300), Fin (1 / 300)]
   \<and> np_in_bin (snd (histogram [100, 300, 500])) 2 300
   \<and> sel (snd (histogram [100, 300, 500])) 1 300
   \<and> weights [1000, 1000] = [PInf, PInf]"
proof -
  have "weights [1000, 1000] = [PInf, PInf]" by code_simp
  then show ?thesis by (simp add: w3 edges3 np_in_bin_def sel_def bins_def)
qed

lemma sel_np_agree:
  assumes "i < bins" "y \<noteq> bin_edges ! 1" "y \<noteq> bin_edges ! 2" "y \<noteq> bin_edges ! 3"
  shows "sel bin_edges i y \<longleftrightarrow> np_in_bin bin_edges i y"
proof -
  from assms(1) have "i = 0 \<or> i = 1 \<or> i = 2 \<or> i = 3" by (auto simp: bins_def)
  then show ?thesis using assms(2-4)
    by (elim disjE) (auto simp: sel_def np_in_bin_def bins_def Let_def numeral_2_eq_2 numeral_3_eq_3)
qed

lemma outer_edges_lt: "fst (outer_edges a) < snd (outer_edges a)"
proof (cases "a = []")
  case True
  then show ?thesis by (simp add: outer_edges_def)
next
  case False
  then have le: "Min (set a) \<le> Max (set a)" by simp
  show ?thesis
  proof (cases "Min (set a) = Max (set a)")
    case True
    then show ?thesis using False by (simp add: outer_edges_def Let_def)
  next
    case ne: False
    with le have "Min (set a) < Max (set a)" by simp
    then show ?thesis using False ne by (simp add: outer_edges_def Let_def)
  qed
qed

lemma histogram_edges:
  "\<exists>f d. 0 < d \<and> snd (histogram a) = [f, f + d, f + 2 * d, f + 3 * d, f + 4 * d]"
proof -
  obtain f l where fl: "outer_edges a = (f, l)" by (cases "outer_edges a")
  then have "f < l" using outer_edges_lt[of a] by simp
  then have "0 < (l - f) / 4" by simp
  moreover have "snd (histogram a)
      = [f, f + (l - f) / 4, f + 2 * ((l - f) / 4), f + 3 * ((l - f) / 4), f + 4 * ((l - f) / 4)]"
    by (simp add: histogram_def fl linspace_def bins_def upt5 Let_def)
  ultimately show ?thesis by blast
qed

text \<open>
  A label that lies on no inner edge receives the weight of the bin in which
  \<open>np.histogram\<close> counted it.
\<close>

lemma weights_off_edges:
  assumes j: "j < length y_trn" and i: "i < bins"
    and bin: "np_in_bin (snd (histogram y_trn)) i (y_trn ! j)"
    and off: "y_trn ! j \<noteq> snd (histogram y_trn) ! 1" "y_trn ! j \<noteq> snd (histogram y_trn) ! 2"
             "y_trn ! j \<noteq> snd (histogram y_trn) ! 3"
  shows "weights y_trn ! j = invhist_of (fst (histogram y_trn)) ! i"
proof -
  obtain f d where d: "0 < d" and e: "snd (histogram y_trn) = [f, f + d, f + 2 * d, f + 3 * d, f + 4 * d]"
    using histogram_edges by blast
  from i have "i = 0 \<or> i = 1 \<or> i = 2 \<or> i = 3" by (auto simp: bins_def)
  then show ?thesis
    using bin off d
    unfolding weights_nth[OF j] e Let_def
    by (elim disjE)
       (auto simp: sel_def np_in_bin_def bins_def Let_def numeral_2_eq_2 numeral_3_eq_3)
qed

text \<open>
  With a populated bin below the edge the weight is finite but is the one of the wrong
  bin: the label 2 is counted in bin 2 with the weight \<open>3/2\<close>, and receives the weight
  \<open>1/2\<close> of bin 1.
\<close>

lemma weights_dense:
  "weights [0, 3/2, 8/5, 17/10, 2, 4]
     = [Fin (3 / 2), Fin (1 / 2), Fin (1 / 2), Fin (1 / 2), Fin (1 / 2), Fin (3 / 2)]"
  by code_simp

section \<open>The log transform of the labels\<close>






section \<open>Column statistics and the normalization\<close>





lemma sum_sq_nonneg: "0 \<le> sum_list (map (\<lambda>x. (m - x)\<^sup>2) xs)" for m :: real
  by (rule sum_list_nonneg) auto








lemma std_nonneg: "0 \<le> std xs"
  unfolding std_def by (cases "length xs \<le> 1") (auto intro!: divide_nonneg_nonneg sum_sq_nonneg)








section \<open>The preprocessed table\<close>

lemma read_csv_names: "map fst (read_csv rows) = column_names"
  by (simp add: read_csv_def comp_def map_nth)



lemma dropna_names: "map fst (dropna df) = map fst df"
  by (simp add: dropna_def Let_def comp_def case_prod_unfold)






lemma encode_origin_Some: "\<exists>pre. encode_origin (dropna (read_csv rows)) = Some pre"
proof -
  have "Origin \<in> set (map fst (dropna (read_csv rows)))"
    by (simp only: dropna_names read_csv_names) (simp add: column_names_def)
  then have "map_of (dropna (read_csv rows)) Origin \<noteq> None"
    by (simp add: map_of_eq_None_iff)
  then show ?thesis by (auto simp: encode_origin_def)
qed


lemma normalize_inputs_names: "map fst (normalize_inputs df) = map fst df"
  by (cases df) (simp_all add: normalize_inputs_def comp_def case_prod_unfold)




subsection \<open>The example tables\<close>


lemma pre5: "encode_origin (dropna (read_csv cars5)) = Some
  [(MPG, [Fin 18, Fin 24, Fin 26, Fin 27]),
   (Cylinders, [Fin 8, Fin 4, Fin 4, Fin 6]),
   (Displacement, [Fin 307, Fin 113, Fin 97, Fin 200]),
   (Horsepower, [Fin 130, Fin 95, Fin 46, Fin 85]),
   (Weight, [Fin 3504, Fin 2372, Fin 1835, Fin 2587]),
   (Acceleration, [Fin 12, Fin 15, Fin (41 / 2), Fin 16]),
   (Model_Year, [Fin 70, Fin 70, Fin 71, Fin 72]),
   (Origin_is (Fin 1), [Fin 1, Fin 0, Fin 0, Fin 1]),
   (Origin_is (Fin 2), [Fin 0, Fin 0, Fin 1, Fin 0]),
   (Origin_is (Fin 3), [Fin 0, Fin 1, Fin 0, Fin 0])]"
  by code_simp


text \<open>
  The five-car table has three origins, hence nine input columns: the input width of
  the networks.
\<close>

lemma x_cols5:
  "map_option X_cols (preprocess cars5)
     = Some [Cylinders, Displacement, Horsepower, Weight, Acceleration, Model_Year,
             Origin_is (Fin 1), Origin_is (Fin 2), Origin_is (Fin 3)]"
  by (simp add: preprocess_def pre5 X_cols_def normalize_inputs_def)

lemma nine_inputs:
  "map_option (\<lambda>cols. count_params (length cols) tutorial_model)
     (map_option X_cols (preprocess cars5)) = Some 4865"
  by (simp add: x_cols5 tutorial_model_def dense_params_def)





section \<open>The loaders and the network\<close>

lemma urlretrieve_requests:
  "requests (snd (urlretrieve net url filename w)) = requests w @ [url]"
  by (simp add: urlretrieve_def Let_def split: option.split)

lemma urlretrieve_fail:
  "net url = None \<Longrightarrow>
   urlretrieve net url filename w = (Inl URLError, w\<lparr>requests := requests w @ [url]\<rparr>)"
  by (simp add: urlretrieve_def Let_def)

lemma urlretrieve_ok:
  "net url = Some c \<Longrightarrow>
   urlretrieve net url filename w
     = (Inr (), w\<lparr>requests := requests w @ [url], files := (files w)(filename \<mapsto> c)\<rparr>)"
  by (simp add: urlretrieve_def Let_def)

lemma get_data_requests:
  "requests (snd (get_data logy net rnd w)) = requests w @ [remote_url]"
  by (cases "net remote_url")
     (simp_all add: get_data_def urlretrieve_fail urlretrieve_ok Let_def split: option.split)

lemma get_data_files:
  "net remote_url = Some cells \<Longrightarrow>
   files (snd (get_data logy net rnd w)) = (files w)(fname \<mapsto> cells)"
  by (simp add: get_data_def urlretrieve_ok Let_def split: option.split)

text \<open>
  Claim C7, amended. The Auto MPG loader returns the cached path without a request when
  the file is in the cache; otherwise it sends one request, and stores the answer or
  returns the error. \<open>get_data\<close> sends exactly one request on every call, whether or
  not the file is there; the answer replaces the file, and a failed request ends the
  call with the error. No call sends a second request.
\<close>

theorem loaders_fetch:
  "(cache_path ''auto-mpg.data'' \<in> dom (files w) \<longrightarrow>
      dataset_path net w = (Inr (cache_path ''auto-mpg.data''), w))
   \<and> (cache_path ''auto-mpg.data'' \<notin> dom (files w) \<and> net mpg_url = Some c \<longrightarrow>
        dataset_path net w
          = (Inr (cache_path ''auto-mpg.data''),
             w\<lparr>requests := requests w @ [mpg_url],
               files := (files w)(cache_path ''auto-mpg.data'' \<mapsto> c)\<rparr>))
   \<and> (cache_path ''auto-mpg.data'' \<notin> dom (files w) \<and> net mpg_url = None \<longrightarrow>
        dataset_path net w = (Inl URLError, w\<lparr>requests := requests w @ [mpg_url]\<rparr>))
   \<and> requests (snd (get_data logy net' rnd w')) = requests w' @ [remote_url]
   \<and> (net' remote_url = Some cells \<longrightarrow>
        files (snd (get_data logy net' rnd w')) = (files w')(fname \<mapsto> cells))
   \<and> (net' remote_url = None \<longrightarrow>
        get_data logy net' rnd w' = (Inl URLError, w'\<lparr>requests := requests w' @ [remote_url]\<rparr>))"
proof -
  let ?p = "cache_path ''auto-mpg.data''"
  have 1: "?p \<in> dom (files w) \<longrightarrow> dataset_path net w = (Inr ?p, w)"
    by (simp add: dataset_path_def get_file_def Let_def)
  have 2: "?p \<notin> dom (files w) \<and> net mpg_url = Some c \<longrightarrow>
        dataset_path net w
          = (Inr ?p, w\<lparr>requests := requests w @ [mpg_url], files := (files w)(?p \<mapsto> c)\<rparr>)"
    by (auto simp: dataset_path_def get_file_def Let_def urlretrieve_ok)
  have 3: "?p \<notin> dom (files w) \<and> net mpg_url = None \<longrightarrow>
        dataset_path net w = (Inl URLError, w\<lparr>requests := requests w @ [mpg_url]\<rparr>)"
    by (auto simp: dataset_path_def get_file_def Let_def urlretrieve_fail)
  have 4: "net' remote_url = None \<longrightarrow>
        get_data logy net' rnd w' = (Inl URLError, w'\<lparr>requests := requests w' @ [remote_url]\<rparr>)"
    by (simp add: get_data_def urlretrieve_fail)
  have 5: "requests (snd (get_data logy net' rnd w')) = requests w' @ [remote_url]"
    by (rule get_data_requests)
  have 6: "net' remote_url = Some cells \<longrightarrow>
        files (snd (get_data logy net' rnd w')) = (files w')(fname \<mapsto> cells)"
    by (simp add: get_data_files)
  show ?thesis by (intro conjI) (rule 1 2 3 4 5 6)+
qed

lemma dataset_path_cached:
  "cache_path ''auto-mpg.data'' \<in> dom (files w) \<Longrightarrow>
   dataset_path net w = (Inr (cache_path ''auto-mpg.data''), w)"
  by (simp add: dataset_path_def get_file_def Let_def)

lemma dataset_path_twice:
  "net mpg_url = Some c \<Longrightarrow>
   requests (snd (dataset_path net (snd (dataset_path net w)))) = requests (snd (dataset_path net w))"
  by (cases "cache_path ''auto-mpg.data'' \<in> dom (files w)")
     (simp_all add: dataset_path_def get_file_def Let_def urlretrieve_ok)

lemma serve_url: "serve cells remote_url = Some cells"
  by (simp add: serve_def)

text \<open>
  Claim C7 as stated fails for \<open>get_data\<close>: after the first call the file is there, and
  the second call requests it again.
\<close>

theorem second_get_data_downloads_again:
  "files (snd (get_data True (serve cells7) rnd7 w0)) fname = Some cells7
   \<and> requests (snd (get_data True (serve cells7) rnd7 (snd (get_data True (serve cells7) rnd7 w0))))
       = [remote_url, remote_url]"
  by (simp add: get_data_requests get_data_files[of "serve cells7" cells7, OF serve_url] w0_def)

theorem loaders_fetch_witness:
  "dataset_path serve_mpg
      \<lparr>files = [cache_path ''auto-mpg.data'' \<mapsto> cars2], requests = []\<rparr>
     = (Inr (cache_path ''auto-mpg.data''),
        \<lparr>files = [cache_path ''auto-mpg.data'' \<mapsto> cars2], requests = []\<rparr>)
   \<and> dataset_path serve_mpg \<lparr>files = Map.empty, requests = []\<rparr>
     = (Inr (cache_path ''auto-mpg.data''),
        \<lparr>files = [cache_path ''auto-mpg.data'' \<mapsto> cars5], requests = [mpg_url]\<rparr>)
   \<and> dataset_path (\<lambda>u. None) \<lparr>files = Map.empty :: string \<rightharpoonup> npfloat list list, requests = []\<rparr>
     = (Inl URLError, \<lparr>files = Map.empty, requests = [mpg_url]\<rparr>)
   \<and> files (snd (get_data True (serve cells7) rnd7 w0)) = [fname \<mapsto> cells7]
   \<and> get_data True (\<lambda>u. None) rnd7 w0
     = (Inl URLError, \<lparr>files = Map.empty, requests = [remote_url]\<rparr>)"
proof -
  let ?p = "cache_path ''auto-mpg.data''"
  let ?wc = "\<lparr>files = [?p \<mapsto> cars2], requests = []\<rparr> :: npfloat list list world"
  let ?we = "\<lparr>files = Map.empty, requests = []\<rparr> :: npfloat list list world"
  have a: "?p \<in> dom (files ?wc)" by simp
  have b: "?p \<notin> dom (files ?we) \<and> serve_mpg mpg_url = Some cars5"
    by (simp add: serve_mpg_def)
  have c: "?p \<notin> dom (files ?we) \<and> (None :: npfloat list list option) = None"
    by simp
  note T1 = loaders_fetch[of ?wc serve_mpg cars5 True "serve cells7" rnd7 w0 cells7]
  note T2 = loaders_fetch[of ?we serve_mpg cars5 True "\<lambda>u. None" rnd7 w0 cells7]
  note T3 = loaders_fetch[of ?we "\<lambda>u. None" cars5 True "serve cells7" rnd7 w0 cells7]
  have 1: "dataset_path serve_mpg ?wc = (Inr ?p, ?wc)"
    by (rule T1[THEN conjunct1, THEN mp, OF a])
  have 2: "dataset_path serve_mpg ?we
     = (Inr ?p, ?we\<lparr>requests := requests ?we @ [mpg_url], files := (files ?we)(?p \<mapsto> cars5)\<rparr>)"
    by (rule T2[THEN conjunct2, THEN conjunct1, THEN mp, OF b])
  have 3: "dataset_path (\<lambda>u. None) ?we = (Inl URLError, ?we\<lparr>requests := requests ?we @ [mpg_url]\<rparr>)"
    by (rule T3[THEN conjunct2, THEN conjunct2, THEN conjunct1, THEN mp, OF c])
  have 4: "files (snd (get_data True (serve cells7) rnd7 w0)) = (files w0)(fname \<mapsto> cells7)"
    by (rule T1[THEN conjunct2, THEN conjunct2, THEN conjunct2, THEN conjunct2, THEN conjunct1,
                THEN mp, OF serve_url])
  have 5: "get_data True (\<lambda>u. None) rnd7 w0 = (Inl URLError, w0\<lparr>requests := requests w0 @ [remote_url]\<rparr>)"
    by (rule T2[THEN conjunct2, THEN conjunct2, THEN conjunct2, THEN conjunct2, THEN conjunct2,
                THEN mp, OF refl])
  from 1 2 3 4 5 show ?thesis by (simp add: w0_def)
qed

lemma w5:
  "weights [300, 500, 700, 900, 1300]
     = [Fin (5 / 8), Fin (5 / 8), Fin (5 / 4), Fin (5 / 4), Fin (5 / 4)]"
  by code_simp

text \<open>One whole call of \<open>get_data(logy=False)\<close> on the seven-cell file.\<close>

lemma get_data7:
  "get_data False (serve cells7) rnd7 w0 =
     (Inr \<lparr>data_y = \<lparr>trn = [Fin 300, Fin 500, Fin 700, Fin 900, Fin 1300], val = [Fin 1500], tst = [Fin 1100]\<rparr>,
           data_n = \<lparr>trn = 5, val = 1, tst = 1\<rparr>,
           data_iD = \<lparr>trn = [True, True, True, True, False, True, False],
                      val = [False, False, False, False, False, False, True],
                      tst = [False, False, False, False, True, False, False]\<rparr>,
           data_weights = [Fin (5/8), Fin (5/8), Fin (5/4), Fin (5/4), Fin (5/4)]\<rparr>,
      \<lparr>files = [fname \<mapsto> cells7], requests = [remote_url]\<rparr>)"
  by (simp add: get_data_def urlretrieve_def serve_def w0_def iD7 Let_def labels_def mask_select_def
        np_count_def get_weights_def w5)
    (simp add: cells7_def w5)

section \<open>Whole calls of \<open>get_data\<close>\<close>

lemma w_empty: "weights [] = []"
  by (simp add: weights_def bins_def upt4 split: prod.split)

lemma bc6: "batchV cells6 = [1,1,2,2,2,3]"
  by (simp add: cells6_def batchV_def batch_code_def)

lemma iD6: "iD rnd7 cells6 = \<lparr>trn = [True, True, True, True, False, False],
    val = [False, False, False, False, True, False], tst = [False, False, False, False, False, True]\<rparr>"
proof -
  have tm: "tst_mask cells6 = [False, False, False, False, False, True]"
    by (simp add: tst_mask_def bc6)
  have n: "nrst_of cells6 = 5" by (simp add: nrst_of_def tm) (simp add: cells6_def)
  have a: "argsort (irnd_of (tst_mask cells6) rnd7) = [5, 0, 1, 2, 3, 4]"
    by (simp add: tm irnd_of_def rnd7_def argsort_def upt_rec_numeral)
  show ?thesis unfolding iD_def a
    by (simp add: iD_with_def tm n nval_of_def slice_from_def Let_def) (simp add: cells6_def)
qed

lemma w6: "weights [100, 300, 500, 500] = [Fin 1, PInf, Fin (1 / 2), Fin (1 / 2)]"
  by code_simp

text \<open>
  Claim C1 at a call of \<open>get_data\<close> on the three-cell file. Two cells lie outside batch
  3, so \<open>nval = 0\<close> and the slice \<open>[-0:]\<close> keeps every index: all three cells are
  validation cells, the Batch3 cell is a validation cell and a test cell at once, and no
  cell is left to train on.
\<close>

theorem small_dataset_val_tst_overlap:
  "get_data False (serve cells3) rnd7 w0 =
     (Inr \<lparr>data_y = \<lparr>trn = [], val = [Fin 100, Fin 1000, Fin 10000], tst = [Fin 10000]\<rparr>,
           data_n = \<lparr>trn = 0, val = 3, tst = 1\<rparr>,
           data_iD = \<lparr>trn = [False, False, False], val = [True, True, True], tst = [False, False, True]\<rparr>,
           data_weights = []\<rparr>,
      \<lparr>files = [fname \<mapsto> cells3], requests = [remote_url]\<rparr>)"
  by (simp add: get_data_def urlretrieve_def serve_def w0_def iD3 Let_def labels_def mask_select_def
        np_count_def get_weights_def w_empty)
    (simp add: cells3_def w_empty)

text \<open>
  Claim C6 at a call of \<open>get_data\<close> on the six-cell file. The training labels are
  \<open>[100, 300, 500, 500]\<close> and the edges \<open>100, 200, 300, 400, 500\<close>. \<open>np.histogram\<close>
  counts the label 300 in bin 2, which is closed on the left, and leaves bin 1 empty;
  the loop selects the label with bin 1, which is closed on the right, and gives it
  \<open>mean(hist)/hist[1]\<close>, a division by the density 0 of a bin that does not hold the
  label. The returned weight is infinite, where the inverse density of the bin that
  holds the label is 1.
\<close>

theorem edge_label_infinite_weight:
  "get_data False (serve cells6) rnd7 w0 =
     (Inr \<lparr>data_y = \<lparr>trn = [Fin 100, Fin 300, Fin 500, Fin 500], val = [Fin 900], tst = [Fin 1100]\<rparr>,
           data_n = \<lparr>trn = 4, val = 1, tst = 1\<rparr>,
           data_iD = \<lparr>trn = [True, True, True, True, False, False],
                      val = [False, False, False, False, True, False],
                      tst = [False, False, False, False, False, True]\<rparr>,
           data_weights = [Fin 1, PInf, Fin (1 / 2), Fin (1 / 2)]\<rparr>,
      \<lparr>files = [fname \<mapsto> cells6], requests = [remote_url]\<rparr>)"
  by (simp add: get_data_def urlretrieve_def serve_def w0_def iD6 Let_def labels_def mask_select_def
        np_count_def get_weights_def w6)
    (simp add: cells6_def w6)

end
